theory Spec2Isabelle
  imports Main
begin

section \<open>Python values\<close>

text \<open>
  The scraper handles decoded JSON: \<open>None\<close>, booleans, integers, strings, lists and
  dictionaries with string keys. A dictionary is kept as the list of its items, looked up
  with \<open>map_of\<close>. Strings are lists of code points below 256 (ASCII and Latin-1, which
  covers the pound sign of the sample catalog); numbers are Python's unbounded integers.
  Non-integer numbers are outside this model.
\<close>

datatype json =
    JNull
  | JBool bool
  | JInt int
  | JStr string
  | JList "json list"
  | JObj "(string \<times> json) list"

text \<open>The exceptions of the list phase, by class: no handler of the list phase reads
  a message. \<open>RequestException\<close> stands for the class and its subclasses (connection
  errors, timeouts, the \<open>HTTPError\<close> of \<open>raise_for_status\<close>); \<open>DecodeError\<close> for
  what \<open>brotli.decompress\<close> and \<open>json.loads\<close> raise on a body they cannot read;
  \<open>DatabaseError\<close> for every database error other than \<open>IntegrityError\<close>.\<close>

datatype exn =
    AttributeError
  | TypeError
  | IndexError
  | KeyError
  | ValueError
  | RequestException
  | DecodeError
  | IntegrityError
  | DatabaseError

definition exn_bind :: "exn + 'a \<Rightarrow> ('a \<Rightarrow> exn + 'b) \<Rightarrow> exn + 'b" where
  "exn_bind m f = (case m of Inl e \<Rightarrow> Inl e | Inr v \<Rightarrow> f v)"

text \<open>Truth value of an object, as \<open>if x\<close> and \<open>x and y\<close> test it.\<close>

fun truthy :: "json \<Rightarrow> bool" where
  "truthy JNull = False"
| "truthy (JBool b) = b"
| "truthy (JInt i) = (i \<noteq> 0)"
| "truthy (JStr s) = (s \<noteq> [])"
| "truthy (JList xs) = (xs \<noteq> [])"
| "truthy (JObj kvs) = (kvs \<noteq> [])"

text \<open>\<open>d.get(key, default)\<close>: only a dictionary has the method.\<close>

fun py_get :: "json \<Rightarrow> string \<Rightarrow> json \<Rightarrow> exn + json" where
  "py_get (JObj kvs) k d = Inr (case map_of kvs k of None \<Rightarrow> d | Some v \<Rightarrow> v)"
| "py_get _ k d = Inl AttributeError"

text \<open>\<open>d[key]\<close> with a string key: a dictionary looks the key up, a string or a list
  refuses a string index, the other values are not subscriptable.\<close>

fun py_item :: "json \<Rightarrow> string \<Rightarrow> exn + json" where
  "py_item (JObj kvs) k = (case map_of kvs k of None \<Rightarrow> Inl KeyError | Some v \<Rightarrow> Inr v)"
| "py_item _ k = Inl TypeError"

text \<open>\<open>x[0]\<close>: the first element of a list, the first character of a string; a
  dictionary of string keys has no key \<open>0\<close>.\<close>

fun py_first :: "json \<Rightarrow> exn + json" where
  "py_first (JList []) = Inl IndexError"
| "py_first (JList (x # xs)) = Inr x"
| "py_first (JStr []) = Inl IndexError"
| "py_first (JStr (c # cs)) = Inr (JStr [c])"
| "py_first (JObj kvs) = Inl KeyError"
| "py_first _ = Inl TypeError"

text \<open>\<open>for x in v\<close>: the elements of a list, the keys of a dictionary, the characters
  of a string.\<close>

fun py_iter :: "json \<Rightarrow> exn + json list" where
  "py_iter (JList xs) = Inr xs"
| "py_iter (JObj kvs) = Inr (map (\<lambda>kv. JStr (fst kv)) kvs)"
| "py_iter (JStr s) = Inr (map (\<lambda>c. JStr [c]) s)"
| "py_iter _ = Inl TypeError"

subsection \<open>Numbers and strings as text\<close>

definition digit_char :: "nat \<Rightarrow> char" where
  "digit_char n = ''0123456789abcdef'' ! (n mod 16)"

fun nat_dec :: "nat \<Rightarrow> string" where
  "nat_dec n = (if n < 10 then [digit_char n]
                else nat_dec (n div 10) @ [digit_char (n mod 10)])"

declare nat_dec.simps [simp del]

definition int_dec :: "int \<Rightarrow> string" where
  "int_dec i = (if i < 0 then CHR ''-'' # nat_dec (nat (- i)) else nat_dec (nat i))"

text \<open>The format specification \<open>,\<close>: decimal digits in groups of three.\<close>

definition three_digits :: "nat \<Rightarrow> string" where
  "three_digits n =
     [digit_char (n div 100 mod 10), digit_char (n div 10 mod 10), digit_char (n mod 10)]"

fun nat_comma :: "nat \<Rightarrow> string" where
  "nat_comma n = (if n < 1000 then nat_dec n
                  else nat_comma (n div 1000) @ CHR '','' # three_digits (n mod 1000))"

declare nat_comma.simps [simp del]

definition int_comma :: "int \<Rightarrow> string" where
  "int_comma i = (if i < 0 then CHR ''-'' # nat_comma (nat (- i)) else nat_comma (nat i))"

text \<open>\<open>f"{x:,}"\<close>: integers (and booleans, which are integers) accept the
  specification; a string raises ValueError, the other values TypeError.\<close>

fun py_format_comma :: "json \<Rightarrow> exn + string" where
  "py_format_comma (JInt i) = Inr (int_comma i)"
| "py_format_comma (JBool b) = Inr (if b then ''1'' else ''0'')"
| "py_format_comma (JStr s) = Inl ValueError"
| "py_format_comma _ = Inl TypeError"

text \<open>\<open>repr\<close> of a string: single quotes unless the string holds a single quote and
  no double quote; backslash, the quote, tab, newline and carriage return escaped; the
  non-printable code points written \<open>\xhh\<close>.\<close>

definition repr_char :: "char \<Rightarrow> char \<Rightarrow> string" where
  "repr_char q c =
     (let n = (of_char c :: nat) in
      if c = q \<or> c = CHR 0x5C then [CHR 0x5C, c]
      else if n = 9 then [CHR 0x5C, CHR ''t'']
      else if n = 10 then [CHR 0x5C, CHR ''n'']
      else if n = 13 then [CHR 0x5C, CHR ''r'']
      else if n < 32 \<or> (127 \<le> n \<and> n \<le> 160) \<or> n = 173
        then [CHR 0x5C, CHR ''x'', digit_char (n div 16), digit_char (n mod 16)]
      else [c])"

definition repr_str :: "string \<Rightarrow> string" where
  "repr_str s =
     (let q = (if CHR 0x27 \<in> set s \<and> CHR 0x22 \<notin> set s then CHR 0x22 else CHR 0x27)
      in q # concat (map (repr_char q) s) @ [q])"

text \<open>\<open>sep.join(parts)\<close>.\<close>

fun py_join :: "string \<Rightarrow> string list \<Rightarrow> string" where
  "py_join sep [] = []"
| "py_join sep [x] = x"
| "py_join sep (x # y # ys) = x @ sep @ py_join sep (y # ys)"

fun py_repr :: "json \<Rightarrow> string" where
  "py_repr JNull = ''None''"
| "py_repr (JBool b) = (if b then ''True'' else ''False'')"
| "py_repr (JInt i) = int_dec i"
| "py_repr (JStr s) = repr_str s"
| "py_repr (JList xs) = ''['' @ py_join '', '' (map py_repr xs) @ '']''"
| "py_repr (JObj kvs) =
     ''{'' @ py_join '', '' (map (\<lambda>kv. repr_str (fst kv) @ '': '' @ py_repr (snd kv)) kvs) @ ''}''"

text \<open>\<open>str(x)\<close>, which an f-string applies to a field without a specification: a
  string is itself, everything else is its \<open>repr\<close>.\<close>

fun py_str :: "json \<Rightarrow> string" where
  "py_str (JStr s) = s"
| "py_str v = py_repr v"

subsection \<open>Case and containment\<close>

text \<open>\<open>s.lower()\<close> on code points below 256: the letters A to Z and the Latin-1
  capitals have a lower-case partner, every other code point is kept.\<close>

definition upper_chars :: "string" where
  "upper_chars = ''ABCDEFGHIJKLMNOPQRSTUVWXYZ'' @
     [CHR 0xC0, CHR 0xC1, CHR 0xC2, CHR 0xC3, CHR 0xC4, CHR 0xC5, CHR 0xC6, CHR 0xC7,
      CHR 0xC8, CHR 0xC9, CHR 0xCA, CHR 0xCB, CHR 0xCC, CHR 0xCD, CHR 0xCE, CHR 0xCF,
      CHR 0xD0, CHR 0xD1, CHR 0xD2, CHR 0xD3, CHR 0xD4, CHR 0xD5, CHR 0xD6, CHR 0xD8,
      CHR 0xD9, CHR 0xDA, CHR 0xDB, CHR 0xDC, CHR 0xDD, CHR 0xDE]"

definition lower_chars :: "string" where
  "lower_chars = ''abcdefghijklmnopqrstuvwxyz'' @
     [CHR 0xE0, CHR 0xE1, CHR 0xE2, CHR 0xE3, CHR 0xE4, CHR 0xE5, CHR 0xE6, CHR 0xE7,
      CHR 0xE8, CHR 0xE9, CHR 0xEA, CHR 0xEB, CHR 0xEC, CHR 0xED, CHR 0xEE, CHR 0xEF,
      CHR 0xF0, CHR 0xF1, CHR 0xF2, CHR 0xF3, CHR 0xF4, CHR 0xF5, CHR 0xF6, CHR 0xF8,
      CHR 0xF9, CHR 0xFA, CHR 0xFB, CHR 0xFC, CHR 0xFD, CHR 0xFE]"

definition lower_char :: "char \<Rightarrow> char" where
  "lower_char c = (case map_of (zip upper_chars lower_chars) c of None \<Rightarrow> c | Some l \<Rightarrow> l)"

definition py_lower :: "string \<Rightarrow> string" where
  "py_lower s = map lower_char s"

text \<open>\<open>t in s\<close> on strings: \<open>t\<close> occurs in \<open>s\<close> as a contiguous piece.\<close>

fun starts_with :: "string \<Rightarrow> string \<Rightarrow> bool" where
  "starts_with [] s = True"
| "starts_with (a # as) [] = False"
| "starts_with (a # as) (b # bs) = (a = b \<and> starts_with as bs)"

fun py_in :: "string \<Rightarrow> string \<Rightarrow> bool" where
  "py_in t [] = (t = [])"
| "py_in t (c # cs) = (starts_with t (c # cs) \<or> py_in t cs)"

section \<open>Normalizer: salary formatting\<close>

text \<open>\<open>JobScraper.format_salary\<close>. The body of the \<open>try\<close> is \<open>salary_parts\<close>; the
  handler turns every exception into the text "Not specified".\<close>

definition salary_range :: "json \<Rightarrow> exn + string list" where
  "salary_range compensation =
     exn_bind (py_get compensation ''minSalary'' JNull) (\<lambda>mn.
       if \<not> truthy mn then Inr []
       else exn_bind (py_get compensation ''maxSalary'' JNull) (\<lambda>mx.
         if \<not> truthy mx then Inr []
         else exn_bind (py_item compensation ''minSalary'') (\<lambda>min_sal.
              exn_bind (py_item compensation ''maxSalary'') (\<lambda>max_sal.
              exn_bind (py_get compensation ''currency'' (JStr ''USD'')) (\<lambda>currency.
              exn_bind (py_format_comma min_sal) (\<lambda>a.
              exn_bind (py_format_comma max_sal) (\<lambda>b.
                Inr [py_str currency @ '' '' @ a @ '' - '' @ b])))))))"

definition equity_part :: "json \<Rightarrow> exn + string list" where
  "equity_part compensation =
     exn_bind (py_get compensation ''equity'' JNull) (\<lambda>eq.
       if \<not> truthy eq then Inr []
       else exn_bind (py_item compensation ''equity'') (\<lambda>equity.
            exn_bind (py_item equity ''min'') (\<lambda>lo.
            exn_bind (py_item equity ''max'') (\<lambda>hi.
              Inr [''Equity: '' @ py_str lo @ ''-'' @ py_str hi @ ''%'']))))"

definition salary_parts :: "json \<Rightarrow> exn + string list" where
  "salary_parts compensation =
     exn_bind (salary_range compensation) (\<lambda>r.
     exn_bind (equity_part compensation) (\<lambda>e. Inr (r @ e)))"

definition format_salary :: "json \<Rightarrow> string" where
  "format_salary compensation =
     (if \<not> truthy compensation then ''Not specified''
      else case salary_parts compensation of
             Inl e \<Rightarrow> ''Not specified''
           | Inr parts \<Rightarrow> if parts \<noteq> [] then py_join '' | '' parts else ''Not specified'')"

section \<open>Normalizer: records\<close>

text \<open>The dictionary \<open>job_data\<close>, with its six keys in the order the code writes them.
  Title, company and location are whatever the payload holds under the key.\<close>

record job =
  job_title :: json
  company_name :: json
  location :: json
  salary_info :: string
  job_url :: string
  source_site :: string

text \<open>The dictionary literal that the three branches of \<open>extract_job_data\<close> share:
  \<open>job_node\<close> is the node itself for a direct listing, and the promoted sub-record (or
  the record itself when there is none) in the other two branches.\<close>

definition job_of_node :: "json \<Rightarrow> exn + job" where
  "job_of_node job_node =
     exn_bind (py_get job_node ''highlightedJobListings'' (JList [JObj []])) (\<lambda>listings.
     exn_bind (py_first listings) (\<lambda>job_listing.
     exn_bind (py_get job_listing ''title'' (JStr ''N/A'')) (\<lambda>title.
     exn_bind (py_get job_node ''name'' (JStr ''N/A'')) (\<lambda>name.
     exn_bind (py_get job_node ''location'' (JStr ''Remote'')) (\<lambda>loc.
     exn_bind (py_get job_listing ''compensation'' JNull) (\<lambda>compensation.
     exn_bind (py_get job_node ''slug'' (JStr [])) (\<lambda>slug.
     exn_bind (py_get job_listing ''id'' (JStr [])) (\<lambda>listing_id.
       Inr \<lparr> job_title = title,
             company_name = name,
             location = loc,
             salary_info = format_salary compensation,
             job_url = ''https://wellfound.com/company/'' @ py_str slug
                       @ ''/jobs/'' @ py_str listing_id,
             source_site = ''Wellfound'' \<rparr>))))))))"

text \<open>The body of the \<open>try\<close> of \<open>JobScraper.extract_job_data\<close>. The loop over the
  featured group takes the first entry and breaks; an empty group leaves \<open>job_data\<close> at
  \<open>None\<close>.\<close>

definition extract_job_data_body :: "json \<Rightarrow> exn + job option" where
  "extract_job_data_body node =
     exn_bind (py_get node ''__typename'' JNull) (\<lambda>typename.
       if typename = JStr ''StartupSearchResult'' then
         exn_bind (job_of_node node) (\<lambda>j. Inr (Some j))
       else if typename = JStr ''PromotedResult'' then
         exn_bind (py_get node ''promotedStartup'' node) (\<lambda>job_node.
         exn_bind (job_of_node job_node) (\<lambda>j. Inr (Some j)))
       else if typename = JStr ''FeaturedStartups'' then
         exn_bind (py_get node ''featuredStartups'' (JList [])) (\<lambda>featured.
         exn_bind (py_iter featured) (\<lambda>entries.
           case entries of
             [] \<Rightarrow> Inr None
           | featured_job # rest \<Rightarrow>
               exn_bind (py_get featured_job ''promotedStartup'' featured_job) (\<lambda>job_node.
               exn_bind (job_of_node job_node) (\<lambda>j. Inr (Some j)))))
       else Inr None)"

text \<open>\<open>JobScraper.extract_job_data\<close>: the handler answers every exception with
  \<open>None\<close>.\<close>

definition extract_job_data :: "json \<Rightarrow> job option" where
  "extract_job_data node =
     (case extract_job_data_body node of Inl e \<Rightarrow> None | Inr job_data \<Rightarrow> job_data)"

section \<open>Source fallback chain\<close>

subsection \<open>The network\<close>

text \<open>What a request gives: the call raises a \<open>RequestException\<close> (no connection, a
  timeout), or a response arrives with its status code and content.\<close>

datatype 'a http = RequestFailed | Response nat 'a

text \<open>\<open>response.raise_for_status()\<close> raises for the status codes 400 to 599.\<close>

definition raise_for_status :: "nat \<Rightarrow> exn + unit" where
  "raise_for_status status =
     (if 400 \<le> status \<and> status < 600 then Inl RequestException else Inr ())"

text \<open>The content of a response of the primary source: JSON text, JSON text compressed
  with Brotli, or something that is neither.\<close>

datatype body = Json json | BrotliJson json | Undecodable

text \<open>\<open>response.json()\<close>, and after its \<open>JSONDecodeError\<close> the decompression and
  \<open>json.loads\<close>, whose exceptions have no handler here.\<close>

fun decode_body :: "body \<Rightarrow> exn + json" where
  "decode_body (Json data) = Inr data"
| "decode_body (BrotliJson data) = Inr data"
| "decode_body Undecodable = Inl DecodeError"

text \<open>A list item \<open>li.feature\<close> of the secondary source's page: its first link if it has
  one, with the link's \<open>href\<close> and the stripped texts of its \<open>span.title\<close> and
  \<open>span.company\<close>, each absent or present.\<close>

record job_link =
  href :: "string option"
  title_span :: "string option"
  company_span :: "string option"

type_synonym job_li = "job_link option"

subsection \<open>Tier 1: the structured-query source\<close>

text \<open>The path \<open>data.talent.jobSearchResults.startups.edges\<close>, each step with its
  default.\<close>

definition edges_of :: "json \<Rightarrow> exn + json" where
  "edges_of data =
     exn_bind (py_get data ''data'' (JObj [])) (\<lambda>d.
     exn_bind (py_get d ''talent'' (JObj [])) (\<lambda>talent.
     exn_bind (py_get talent ''jobSearchResults'' (JObj [])) (\<lambda>results.
     exn_bind (py_get results ''startups'' (JObj [])) (\<lambda>startups.
       py_get startups ''edges'' (JList [])))))"

text \<open>The loop over the edges: a node that normalizes to \<open>None\<close> is skipped.\<close>

fun collect_jobs :: "json list \<Rightarrow> exn + job list" where
  "collect_jobs [] = Inr []"
| "collect_jobs (edge # edges) =
     exn_bind (py_get edge ''node'' (JObj [])) (\<lambda>node.
     exn_bind (collect_jobs edges) (\<lambda>jobs.
       Inr (case extract_job_data node of None \<Rightarrow> jobs | Some job_data \<Rightarrow> job_data # jobs)))"

text \<open>The body of the \<open>try\<close> of \<open>JobScraper.try_wellfound_scraping\<close>. The argument
  \<open>post\<close> is the primary source: what it answers to a query carrying the search
  terms.\<close>

definition try_wellfound_scraping_body ::
  "(string list \<Rightarrow> body http) \<Rightarrow> string list \<Rightarrow> exn + job list" where
  "try_wellfound_scraping_body post search_terms =
     (case post search_terms of
        RequestFailed \<Rightarrow> Inl RequestException
      | Response status content \<Rightarrow>
          if status = 403 then Inr []
          else exn_bind (raise_for_status status) (\<lambda>u.
               exn_bind (decode_body content) (\<lambda>data.
               exn_bind (edges_of data) (\<lambda>jobs_data.
               exn_bind (py_iter jobs_data) (\<lambda>edges. collect_jobs edges)))))"

text \<open>\<open>JobScraper.try_wellfound_scraping\<close>: the handler catches
  \<open>requests.RequestException\<close> and nothing else.\<close>

definition try_wellfound_scraping ::
  "(string list \<Rightarrow> body http) \<Rightarrow> string list \<Rightarrow> exn + job list" where
  "try_wellfound_scraping post search_terms =
     (case try_wellfound_scraping_body post search_terms of
        Inl e \<Rightarrow> (if e = RequestException then Inr [] else Inl e)
      | Inr jobs \<Rightarrow> Inr jobs)"

subsection \<open>Tiers 2 and 3: the markup source and the sample catalog\<close>

definition filter_terms :: "string list" where
  "filter_terms = [''data'', ''analyst'', ''python'', ''scientist'']"

text \<open>One pass of the loop over the list items: \<open>None\<close> when the item is skipped.\<close>

definition wwr_job :: "job_li \<Rightarrow> job option" where
  "wwr_job job_li =
     (case job_li of
        None \<Rightarrow> None
      | Some job_link \<Rightarrow>
          (case (title_span job_link, company_span job_link) of
             (Some title, Some company) \<Rightarrow>
               if list_ex (\<lambda>term. py_in (py_lower term) (py_lower title)) filter_terms
               then Some \<lparr> job_title = JStr title,
                           company_name = JStr company,
                           location = JStr ''Remote'',
                           salary_info = ''Not specified'',
                           job_url = ''https://weworkremotely.com''
                                     @ (case href job_link of None \<Rightarrow> [] | Some h \<Rightarrow> h),
                           source_site = ''WeWorkRemotely'' \<rparr>
               else None
           | _ \<Rightarrow> None))"

definition pound :: "char" where
  "pound = CHR 0xA3"

definition sample_jobs :: "job list" where
  "sample_jobs =
     [\<lparr> job_title = JStr ''Senior Data Analyst'',
        company_name = JStr ''TechCorp International'',
        location = JStr ''Remote, UK'',
        salary_info = pound # ''45,000 - '' @ pound # ''65,000'',
        job_url = ''https://example.com/job/senior-data-analyst-1'',
        source_site = ''WeWorkRemotely'' \<rparr>,
      \<lparr> job_title = JStr ''Python Developer'',
        company_name = JStr ''DataFlow Solutions'',
        location = JStr ''London, UK'',
        salary_info = pound # ''50,000 - '' @ pound # ''70,000'',
        job_url = ''https://example.com/job/python-developer-2'',
        source_site = ''WeWorkRemotely'' \<rparr>,
      \<lparr> job_title = JStr ''Business Data Scientist'',
        company_name = JStr ''Analytics Pro Ltd'',
        location = JStr ''Manchester, UK'',
        salary_info = pound # ''55,000 - '' @ pound # ''75,000'',
        job_url = ''https://example.com/job/data-scientist-3'',
        source_site = ''WeWorkRemotely'' \<rparr>,
      \<lparr> job_title = JStr ''Junior Data Analyst'',
        company_name = JStr ''StartupTech'',
        location = JStr ''Remote'',
        salary_info = pound # ''30,000 - '' @ pound # ''45,000'',
        job_url = ''https://example.com/job/junior-analyst-4'',
        source_site = ''WeWorkRemotely'' \<rparr>,
      \<lparr> job_title = JStr ''Senior Python Engineer'',
        company_name = JStr ''FinTech Innovations'',
        location = JStr ''Edinburgh, UK'',
        salary_info = pound # ''60,000 - '' @ pound # ''80,000'',
        job_url = ''https://example.com/job/python-engineer-5'',
        source_site = ''WeWorkRemotely'' \<rparr>]"

text \<open>The body of the \<open>try\<close> of \<open>JobScraper.scrape_weworkremotely\<close>. The argument is
  what the category page answers. Nothing in a pass of the inner loop raises in this
  model, so its handler (print and continue) has no branch here.\<close>

definition scrape_weworkremotely_body :: "job_li list http \<Rightarrow> exn + job list" where
  "scrape_weworkremotely_body get =
     (case get of
        RequestFailed \<Rightarrow> Inl RequestException
      | Response status job_listings \<Rightarrow>
          exn_bind (raise_for_status status) (\<lambda>u.
            let jobs = List.map_filter wwr_job (take 10 job_listings)
            in Inr (if length jobs = 0 then jobs @ sample_jobs else jobs)))"

text \<open>\<open>JobScraper.scrape_weworkremotely\<close>: the handler answers every exception with
  the empty list.\<close>

definition scrape_weworkremotely :: "job_li list http \<Rightarrow> job list" where
  "scrape_weworkremotely get =
     (case scrape_weworkremotely_body get of Inl e \<Rightarrow> [] | Inr jobs \<Rightarrow> jobs)"

section \<open>Persistence\<close>

text \<open>
  The table \<open>job_listings\<close>: a row has its serial \<open>id\<close>, the six values of the job it
  was inserted from, a description that is NULL until the detail phase writes it, and
  the time it was scraped. \<open>job_url\<close> is unique. The store is the committed rows and
  the last value of the id sequence. \<open>db_connection\<close> is \<open>None\<close> until
  \<open>connect_to_database\<close> has run, which the model writes as a \<open>store option\<close>.
\<close>

record row =
  row_id :: int
  row_job :: job
  row_description :: "string option"
  scraped_at :: nat

record store =
  rows :: "row list"
  id_seq :: int

text \<open>
  What the server and the driver do beyond the statement's own conflict clause is the
  world's: \<open>insert_fault\<close> says for which job \<open>cursor.execute\<close> raises and what
  (a value that cannot be adapted or does not fit its column, a lost connection), and
  \<open>now\<close> is the time of the transaction. With \<open>ON CONFLICT (job_url) DO NOTHING\<close> a
  duplicate url raises nothing: the statement succeeds and inserts no row.
\<close>

record db_world =
  insert_fault :: "job \<Rightarrow> exn option"
  now :: nat

definition url_stored :: "row list \<Rightarrow> string \<Rightarrow> bool" where
  "url_stored rs url = list_ex (\<lambda>r. job_url (row_job r) = url) rs"

text \<open>
  The loop of \<open>JobScraper.insert_jobs_to_database\<close>. Its state is the rows inserted in
  the open transaction, the id sequence and the counter \<open>successful_inserts\<close>. An
  \<open>IntegrityError\<close> rolls the transaction back and goes on without counting; any other
  exception leaves the loop. Every statement that does not raise is counted, whether
  or not it inserted a row. The sequence advances with every statement that runs.
\<close>

fun insert_loop ::
  "db_world \<Rightarrow> row list \<Rightarrow> job list \<Rightarrow> row list \<times> int \<times> nat \<Rightarrow> exn + (row list \<times> int \<times> nat)" where
  "insert_loop w committed [] st = Inr st"
| "insert_loop w committed (job # jobs) (pending, seq, successful_inserts) =
     (case insert_fault w job of
        Some e \<Rightarrow>
          if e = IntegrityError
          then insert_loop w committed jobs ([], seq + 1, successful_inserts)
          else Inl e
      | None \<Rightarrow>
          if url_stored (committed @ pending) (job_url job)
          then insert_loop w committed jobs (pending, seq + 1, successful_inserts + 1)
          else insert_loop w committed jobs
                 (pending @ [\<lparr> row_id = seq + 1, row_job = job,
                               row_description = None, scraped_at = now w \<rparr>],
                  seq + 1, successful_inserts + 1))"

text \<open>
  \<open>JobScraper.insert_jobs_to_database\<close>: the result is the number the function prints
  as inserted, with the store after the commit. The handler prints and raises again; a
  batch that raises commits nothing, and the model keeps the store as it was.
\<close>

definition insert_jobs_to_database ::
  "db_world \<Rightarrow> store option \<Rightarrow> job list \<Rightarrow> exn + (nat \<times> store option)" where
  "insert_jobs_to_database w db_connection jobs =
     (case db_connection of
        None \<Rightarrow> Inl AttributeError
      | Some db \<Rightarrow>
          exn_bind (insert_loop w (rows db) jobs ([], id_seq db, 0)) (\<lambda>(pending, seq, n).
            Inr (n, Some (db \<lparr> rows := rows db @ pending, id_seq := seq \<rparr>))))"

section \<open>List ingestion\<close>

record world =
  wellfound_post :: "string list \<Rightarrow> body http"
  wwr_get :: "job_li list http"
  database :: db_world

definition default_search_terms :: "string list" where
  "default_search_terms = [''Data Analyst'', ''Python Developer'', ''Data Scientist'']"

text \<open>The fallback chain, lines 133 to 139 of \<open>scrape_list_pages\<close>: the primary source
  first, the secondary one when the primary gave an empty list.\<close>

definition acquire :: "world \<Rightarrow> string list \<Rightarrow> exn + job list" where
  "acquire w search_terms =
     exn_bind (try_wellfound_scraping (wellfound_post w) search_terms) (\<lambda>wellfound_jobs.
       Inr (if wellfound_jobs \<noteq> [] then [] @ wellfound_jobs
            else [] @ scrape_weworkremotely (wwr_get w)))"

text \<open>The body of the \<open>try\<close> of \<open>JobScraper.scrape_list_pages\<close>.\<close>

definition scrape_list_pages_body ::
  "world \<Rightarrow> store option \<Rightarrow> string list \<Rightarrow> exn + (job list \<times> store option)" where
  "scrape_list_pages_body w db_connection search_terms =
     exn_bind (acquire w search_terms) (\<lambda>all_jobs.
       if all_jobs \<noteq> []
       then exn_bind (insert_jobs_to_database (database w) db_connection all_jobs)
              (\<lambda>(n, db'). Inr (all_jobs, db'))
       else Inr (all_jobs, db_connection))"

text \<open>\<open>JobScraper.scrape_list_pages\<close>: the jobs it returns and the store it leaves. The
  handler answers every exception with the empty list.\<close>

definition scrape_list_pages ::
  "world \<Rightarrow> store option \<Rightarrow> string list option \<Rightarrow> exn + (job list \<times> store option)" where
  "scrape_list_pages w db_connection search_terms =
     (let terms = (case search_terms of None \<Rightarrow> default_search_terms | Some ts \<Rightarrow> ts)
      in case scrape_list_pages_body w db_connection terms of
           Inl e \<Rightarrow> Inr ([], db_connection)
         | Inr r \<Rightarrow> Inr r)"

section \<open>Detail enrichment\<close>

text \<open>
  An exception of the detail phase is kept as its message \<open>str(e)\<close>, the only thing a
  handler of this phase reads. A loaded page answers a selector probe with the text of
  the element found, or with nothing when the wait times out or reading the text
  raises; its \<open>body\<close> may be missing as well. A driver maps a url to the page it loads,
  or to the exception \<open>driver.get\<close> raises.
\<close>

datatype failure = Failure string

record page =
  element_text :: "string \<Rightarrow> string option"
  body_text :: "string option"

type_synonym driver = "string \<Rightarrow> failure + page"


definition description_selectors :: "string list" where
  "description_selectors =
     [''[data-test='' @ [CHR 0x22] @ ''job-description'' @ [CHR 0x22] @ '']'',
      ''.job-description'',
      ''#job-description'',
      ''.description'',
      ''[class*='' @ [CHR 0x22] @ ''description'' @ [CHR 0x22] @ '']'',
      ''main'',
      ''.content'']"

text \<open>The loop over the selectors: a probe that raises goes on to the next selector,
  a text of more than 100 characters breaks the loop, a shorter one is kept while the
  loop goes on.\<close>

fun probe_selectors :: "page \<Rightarrow> string list \<Rightarrow> string option \<Rightarrow> string option" where
  "probe_selectors pg [] job_description = job_description"
| "probe_selectors pg (selector # selectors) job_description =
     (case element_text pg selector of
        None \<Rightarrow> probe_selectors pg selectors job_description
      | Some text \<Rightarrow>
          if length text > 100 then Some text
          else probe_selectors pg selectors (Some text))"

definition body_fallback :: "page \<Rightarrow> string" where
  "body_fallback pg =
     (case body_text pg of
        Some body \<Rightarrow> take 2000 body
      | None \<Rightarrow> ''Description could not be extracted from this URL'')"

text \<open>\<open>JobScraper.scrape_url_with_selenium\<close>. The fallback is taken when no text was
  read, or the text read last is empty or shorter than 100 characters.\<close>

definition scrape_url_with_selenium :: "driver \<Rightarrow> string \<Rightarrow> string" where
  "scrape_url_with_selenium driver job_url' =
     (case driver job_url' of
        Inl (Failure e) \<Rightarrow> ''Error accessing URL: '' @ e
      | Inr pg \<Rightarrow>
          (case probe_selectors pg description_selectors None of
             None \<Rightarrow> body_fallback pg
           | Some job_description \<Rightarrow>
               if job_description = [] \<or> length job_description < 100
               then body_fallback pg
               else job_description))"










section \<open>Unfolding the recursions on numerals\<close>

lemma nat_dec_small: "n < 10 \<Longrightarrow> nat_dec n = [digit_char n]"
  by (simp add: nat_dec.simps)

lemma nat_dec_big:
  "\<not> n < 10 \<Longrightarrow> nat_dec n = nat_dec (n div 10) @ [digit_char (n mod 10)]"
  by (subst nat_dec.simps) simp

lemma nat_comma_small: "n < 1000 \<Longrightarrow> nat_comma n = nat_dec n"
  by (simp add: nat_comma.simps)

lemma nat_comma_big:
  "\<not> n < 1000 \<Longrightarrow>
     nat_comma n = nat_comma (n div 1000) @ CHR '','' # three_digits (n mod 1000)"
  by (subst nat_comma.simps) simp

lemmas number_text =
  int_comma_def int_dec_def nat_comma_small nat_comma_big nat_dec_small nat_dec_big
  three_digits_def digit_char_def

section \<open>Normalizer: unknown shapes\<close>

text \<open>
  Claim C8. A raw record whose \<open>__typename\<close> is none of \<open>StartupSearchResult\<close>,
  \<open>PromotedResult\<close> and \<open>FeaturedStartups\<close> (a record that is no dictionary, or has no
  such key, included) normalizes to \<open>None\<close>: \<open>extract_job_data\<close> has no exceptional
  result at all. In the loop over the edges such a node is skipped: the jobs collected
  are those of the remaining edges, so the count of the list phase is smaller by one.
\<close>

theorem extract_job_data_unrecognized:
  assumes "py_get node ''__typename'' JNull \<noteq> Inr (JStr ''StartupSearchResult'')"
      and "py_get node ''__typename'' JNull \<noteq> Inr (JStr ''PromotedResult'')"
      and "py_get node ''__typename'' JNull \<noteq> Inr (JStr ''FeaturedStartups'')"
  shows "extract_job_data node = None
         \<and> (py_get edge ''node'' (JObj []) = Inr node
              \<longrightarrow> collect_jobs (edge # edges) = collect_jobs edges)"
proof -
  have body: "extract_job_data_body node = Inr None \<or> (\<exists>e. extract_job_data_body node = Inl e)"
    using assms
    by (cases "py_get node ''__typename'' JNull")
       (auto simp: extract_job_data_body_def exn_bind_def)
  then have none: "extract_job_data node = None"
    by (auto simp: extract_job_data_def)
  have "collect_jobs (edge # edges) = collect_jobs edges"
    if "py_get edge ''node'' (JObj []) = Inr node"
    using that none by (cases "collect_jobs edges") (simp_all add: exn_bind_def)
  with none show ?thesis by blast
qed

theorem extract_job_data_unrecognized_witness:
  "extract_job_data
     (JObj [(''__typename'', JStr ''JobListingSearchResult''), (''name'', JStr ''Acme'')]) = None
   \<and> extract_job_data JNull = None
   \<and> collect_jobs
       [JObj [(''node'',
          JObj [(''__typename'', JStr ''JobListingSearchResult''), (''name'', JStr ''Acme'')])]]
     = Inr []"
  using extract_job_data_unrecognized
          [of "JObj [(''__typename'', JStr ''JobListingSearchResult''), (''name'', JStr ''Acme'')]"
              "JObj [(''node'',
                 JObj [(''__typename'', JStr ''JobListingSearchResult''), (''name'', JStr ''Acme'')])]"
              "[]"]
        extract_job_data_unrecognized [of JNull]
  by simp

section \<open>Normalizer: empty and missing listings\<close>

lemma job_of_node_empty:
  "map_of tkvs ''highlightedJobListings'' = Some (JList [])
     \<Longrightarrow> job_of_node (JObj tkvs) = Inl IndexError"
  by (simp add: job_of_node_def exn_bind_def)

lemma job_of_node_missing:
  "map_of tkvs ''highlightedJobListings'' = None \<Longrightarrow>
   job_of_node (JObj tkvs) =
     Inr \<lparr> job_title = JStr ''N/A'',
           company_name = (case map_of tkvs ''name'' of None \<Rightarrow> JStr ''N/A'' | Some v \<Rightarrow> v),
           location = (case map_of tkvs ''location'' of None \<Rightarrow> JStr ''Remote'' | Some v \<Rightarrow> v),
           salary_info = ''Not specified'',
           job_url = ''https://wellfound.com/company/''
                     @ py_str (case map_of tkvs ''slug'' of None \<Rightarrow> JStr [] | Some v \<Rightarrow> v)
                     @ ''/jobs/'',
           source_site = ''Wellfound'' \<rparr>"
  by (simp add: job_of_node_def exn_bind_def format_salary_def)

text \<open>
  Claim C10. Take a direct listing, or a promoted listing, and let \<open>tkvs\<close> be the
  dictionary the job fields are read from: the record itself, or its \<open>promotedStartup\<close>
  when the promoted listing has one. When \<open>highlightedJobListings\<close> is present there and
  empty, \<open>[][0]\<close> raises and the record normalizes to \<open>None\<close>. When the key is missing,
  the default list of one empty dictionary is used and a job comes out with the default
  title, the text "Not specified" for the salary and an empty listing id in its url.
\<close>

theorem extract_job_data_empty_listings:
  assumes "(map_of kvs ''__typename'' = Some (JStr ''StartupSearchResult'') \<and> tkvs = kvs)
         \<or> (map_of kvs ''__typename'' = Some (JStr ''PromotedResult'')
            \<and> (case map_of kvs ''promotedStartup'' of None \<Rightarrow> JObj kvs | Some p \<Rightarrow> p)
                = JObj tkvs)"
  shows "(map_of tkvs ''highlightedJobListings'' = Some (JList [])
            \<longrightarrow> extract_job_data (JObj kvs) = None)
       \<and> (map_of tkvs ''highlightedJobListings'' = None
            \<longrightarrow> extract_job_data (JObj kvs) =
                Some \<lparr> job_title = JStr ''N/A'',
                       company_name =
                         (case map_of tkvs ''name'' of None \<Rightarrow> JStr ''N/A'' | Some v \<Rightarrow> v),
                       location =
                         (case map_of tkvs ''location'' of None \<Rightarrow> JStr ''Remote'' | Some v \<Rightarrow> v),
                       salary_info = ''Not specified'',
                       job_url = ''https://wellfound.com/company/''
                         @ py_str (case map_of tkvs ''slug'' of None \<Rightarrow> JStr [] | Some v \<Rightarrow> v)
                         @ ''/jobs/'',
                       source_site = ''Wellfound'' \<rparr>)"
proof -
  have body: "extract_job_data_body (JObj kvs)
                = exn_bind (job_of_node (JObj tkvs)) (\<lambda>j. Inr (Some j))"
    using assms by (auto simp: extract_job_data_body_def exn_bind_def)
  show ?thesis
    by (simp add: extract_job_data_def body job_of_node_empty job_of_node_missing exn_bind_def)
qed

theorem extract_job_data_empty_listings_witness:
  "extract_job_data
     (JObj [(''__typename'', JStr ''StartupSearchResult''), (''name'', JStr ''Acme''),
            (''slug'', JStr ''acme''), (''highlightedJobListings'', JList [])]) = None
   \<and> extract_job_data
       (JObj [(''__typename'', JStr ''PromotedResult''),
              (''promotedStartup'',
                 JObj [(''name'', JStr ''Acme''), (''highlightedJobListings'', JList [])])]) = None
   \<and> extract_job_data
       (JObj [(''__typename'', JStr ''StartupSearchResult''), (''name'', JStr ''Acme''),
              (''slug'', JStr ''acme'')]) =
       Some \<lparr> job_title = JStr ''N/A'', company_name = JStr ''Acme'', location = JStr ''Remote'',
              salary_info = ''Not specified'',
              job_url = ''https://wellfound.com/company/acme/jobs/'',
              source_site = ''Wellfound'' \<rparr>"
  using extract_job_data_empty_listings
          [of "[(''__typename'', JStr ''StartupSearchResult''), (''name'', JStr ''Acme''),
                (''slug'', JStr ''acme''), (''highlightedJobListings'', JList [])]"
              "[(''__typename'', JStr ''StartupSearchResult''), (''name'', JStr ''Acme''),
                (''slug'', JStr ''acme''), (''highlightedJobListings'', JList [])]"]
        extract_job_data_empty_listings
          [of "[(''__typename'', JStr ''PromotedResult''),
                (''promotedStartup'',
                   JObj [(''name'', JStr ''Acme''), (''highlightedJobListings'', JList [])])]"
              "[(''name'', JStr ''Acme''), (''highlightedJobListings'', JList [])]"]
        extract_job_data_empty_listings
          [of "[(''__typename'', JStr ''StartupSearchResult''), (''name'', JStr ''Acme''),
                (''slug'', JStr ''acme'')]"
              "[(''__typename'', JStr ''StartupSearchResult''), (''name'', JStr ''Acme''),
                (''slug'', JStr ''acme'')]"]
  by simp

section \<open>Salary formatting: a zero bound\<close>

lemma salary_range_zero:
  "map_of c ''minSalary'' = Some (JInt 0) \<or> map_of c ''maxSalary'' = Some (JInt 0)
     \<Longrightarrow> salary_range (JObj c) = Inr []"
  by (auto simp: salary_range_def exn_bind_def split: option.splits)

text \<open>
  Claim C9. When one of the two salary bounds of a compensation is 0 (whatever the
  other bound is), the range part is left out: the formatted text is the equity part
  alone when there is one, and "Not specified" when the compensation has no equity
  (the key missing, or its value empty).
\<close>

theorem format_salary_zero_bound:
  assumes "map_of c ''minSalary'' = Some (JInt 0) \<or> map_of c ''maxSalary'' = Some (JInt 0)"
  shows "salary_range (JObj c) = Inr []
       \<and> format_salary (JObj c) =
           (case equity_part (JObj c) of Inr [e] \<Rightarrow> e | _ \<Rightarrow> ''Not specified'')
       \<and> ((case map_of c ''equity'' of None \<Rightarrow> True | Some e \<Rightarrow> \<not> truthy e)
            \<longrightarrow> format_salary (JObj c) = ''Not specified'')"
proof -
  have r: "salary_range (JObj c) = Inr []"
    using assms by (rule salary_range_zero)
  have ne: "c \<noteq> []"
    using assms by auto
  have e: "equity_part (JObj c) = Inr [] \<or> (\<exists>s. equity_part (JObj c) = Inr [s])
           \<or> (\<exists>x. equity_part (JObj c) = Inl x)"
    by (auto simp: equity_part_def exn_bind_def split: option.splits sum.splits)
  have f: "format_salary (JObj c) =
             (case equity_part (JObj c) of Inr [e] \<Rightarrow> e | _ \<Rightarrow> ''Not specified'')"
    using e ne by (auto simp: format_salary_def salary_parts_def r exn_bind_def)
  have n: "format_salary (JObj c) = ''Not specified''"
    if "case map_of c ''equity'' of None \<Rightarrow> True | Some e \<Rightarrow> \<not> truthy e"
  proof -
    have "equity_part (JObj c) = Inr []"
      using that by (auto simp: equity_part_def exn_bind_def split: option.splits)
    then show ?thesis by (simp add: f)
  qed
  from r f n show ?thesis by blast
qed

theorem format_salary_zero_bound_witness:
  "format_salary
     (JObj [(''minSalary'', JInt 60000), (''maxSalary'', JInt 0), (''currency'', JStr ''EUR'')])
     = ''Not specified''
   \<and> format_salary
       (JObj [(''minSalary'', JInt 0), (''maxSalary'', JInt 90000),
              (''equity'', JObj [(''min'', JInt 1), (''max'', JInt 2)])])
     = ''Equity: 1-2%''"
  using format_salary_zero_bound
          [of "[(''minSalary'', JInt 60000), (''maxSalary'', JInt 0), (''currency'', JStr ''EUR'')]"]
        format_salary_zero_bound
          [of "[(''minSalary'', JInt 0), (''maxSalary'', JInt 90000),
                (''equity'', JObj [(''min'', JInt 1), (''max'', JInt 2)])]"]
  by (simp add: equity_part_def exn_bind_def number_text)


section \<open>Salary formatting against the specification\<close>

text \<open>
  The specification's CompensationInfo: optional salary bounds, a currency code and an
  optional equity range of two percentages. In a payload each of the four entries is
  missing, or \<open>null\<close>, or given; the two percentages of an equity range that is given
  are numbers or \<open>null\<close>. \<open>compensation_json\<close> is the payload of a CompensationInfo.
\<close>

datatype 'a field = Missing | Null | Given 'a

record compensation_info =
  min_salary :: "int field"
  max_salary :: "int field"
  currency :: "string field"
  equity :: "(int option \<times> int option) field"

definition entry :: "string \<Rightarrow> json field \<Rightarrow> (string \<times> json) list" where
  "entry k v = (case v of Missing \<Rightarrow> [] | Null \<Rightarrow> [(k, JNull)] | Given x \<Rightarrow> [(k, x)])"

definition percentage :: "int option \<Rightarrow> json" where
  "percentage p = (case p of None \<Rightarrow> JNull | Some i \<Rightarrow> JInt i)"

definition equity_json :: "int option \<times> int option \<Rightarrow> json" where
  "equity_json r = JObj [(''min'', percentage (fst r)), (''max'', percentage (snd r))]"

definition compensation_items :: "compensation_info \<Rightarrow> (string \<times> json) list" where
  "compensation_items ci =
     entry ''minSalary'' (map_field JInt (min_salary ci))
     @ entry ''maxSalary'' (map_field JInt (max_salary ci))
     @ entry ''currency'' (map_field JStr (currency ci))
     @ entry ''equity'' (map_field equity_json (equity ci))"

definition compensation_json :: "compensation_info \<Rightarrow> json" where
  "compensation_json ci = JObj (compensation_items ci)"

text \<open>
  The formatting in the specification's words, with the range part for two bounds
  that are given and not zero. The currency of the range part is the one given; the
  code's default USD stands for a missing entry, and a \<open>null\<close> is printed as Python
  prints it, as is a \<open>null\<close> percentage.
\<close>

definition currency_text :: "string field \<Rightarrow> string" where
  "currency_text c = (case c of Missing \<Rightarrow> ''USD'' | Null \<Rightarrow> ''None'' | Given code \<Rightarrow> code)"

definition percentage_text :: "int option \<Rightarrow> string" where
  "percentage_text p = (case p of None \<Rightarrow> ''None'' | Some i \<Rightarrow> int_dec i)"

definition range_text :: "compensation_info \<Rightarrow> string list" where
  "range_text ci =
     (case (min_salary ci, max_salary ci) of
        (Given a, Given b) \<Rightarrow>
          if a \<noteq> 0 \<and> b \<noteq> 0
          then [currency_text (currency ci) @ '' '' @ int_comma a @ '' - '' @ int_comma b]
          else []
      | _ \<Rightarrow> [])"

definition equity_text :: "compensation_info \<Rightarrow> string list" where
  "equity_text ci =
     (case equity ci of
        Given r \<Rightarrow> [''Equity: '' @ percentage_text (fst r) @ ''-'' @ percentage_text (snd r) @ ''%'']
      | _ \<Rightarrow> [])"

definition salary_text :: "compensation_info \<Rightarrow> string" where
  "salary_text ci =
     (if range_text ci @ equity_text ci = [] then ''Not specified''
      else py_join '' | '' (range_text ci @ equity_text ci))"

lemma lookup_min:
  "map_of (compensation_items ci) ''minSalary'' =
     (case min_salary ci of Missing \<Rightarrow> None | Null \<Rightarrow> Some JNull | Given a \<Rightarrow> Some (JInt a))"
  by (simp add: compensation_items_def entry_def split: field.splits)

lemma lookup_max:
  "map_of (compensation_items ci) ''maxSalary'' =
     (case max_salary ci of Missing \<Rightarrow> None | Null \<Rightarrow> Some JNull | Given a \<Rightarrow> Some (JInt a))"
  by (simp add: compensation_items_def entry_def split: field.splits)

lemma lookup_currency:
  "map_of (compensation_items ci) ''currency'' =
     (case currency ci of Missing \<Rightarrow> None | Null \<Rightarrow> Some JNull | Given c \<Rightarrow> Some (JStr c))"
  by (simp add: compensation_items_def entry_def split: field.splits)

lemma lookup_equity:
  "map_of (compensation_items ci) ''equity'' =
     (case equity ci of Missing \<Rightarrow> None | Null \<Rightarrow> Some JNull | Given r \<Rightarrow> Some (equity_json r))"
  by (simp add: compensation_items_def entry_def split: field.splits)

lemmas lookups = lookup_min lookup_max lookup_currency lookup_equity

lemma salary_range_text: "salary_range (compensation_json ci) = Inr (range_text ci)"
  by (simp add: salary_range_def compensation_json_def lookups exn_bind_def range_text_def
                currency_text_def
           split: field.splits)

lemma equity_part_text: "equity_part (compensation_json ci) = Inr (equity_text ci)"
  by (simp add: equity_part_def compensation_json_def lookups exn_bind_def equity_text_def
                equity_json_def percentage_def percentage_text_def
           split: field.splits option.splits)

lemma empty_payload_text:
  "\<not> truthy (compensation_json ci) \<Longrightarrow> range_text ci @ equity_text ci = []"
  by (auto simp: compensation_json_def compensation_items_def entry_def
                 range_text_def equity_text_def split: field.splits if_splits)

text \<open>
  Outside the type: an equity entry that is a dictionary holding only one of the two
  keys is no range. There the subscript raises, and the handler gives "Not specified"
  whatever the salary bounds are.
\<close>

lemma format_salary_equity_without_key:
  assumes "map_of c ''equity'' = Some (JObj e)" and "e \<noteq> []"
      and "map_of e ''min'' = None \<or> map_of e ''max'' = None"
  shows "format_salary (JObj c) = ''Not specified''"
proof -
  have "\<exists>x. equity_part (JObj c) = Inl x"
    using assms by (auto simp: equity_part_def exn_bind_def split: option.splits)
  then have "\<exists>x. salary_parts (JObj c) = Inl x"
    by (cases "salary_range (JObj c)") (auto simp: salary_parts_def exn_bind_def)
  then show ?thesis
    by (auto simp: format_salary_def)
qed

text \<open>
  Claim C5, as the code has it. \<open>format_salary\<close> is a function of the compensation
  alone. For two salary bounds that are present and not zero it gives the currency,
  the lower and the upper bound with thousands separators; for an equity range it
  gives "Equity: lo-hi%"; the parts are joined with " | "; without any part, and for
  \<open>None\<close> and for the empty dictionary, it gives "Not specified".
\<close>

theorem format_salary_text:
  "format_salary (compensation_json ci) = salary_text ci
   \<and> format_salary JNull = ''Not specified''
   \<and> format_salary (JObj []) = ''Not specified''"
proof -
  have "format_salary (compensation_json ci) = salary_text ci"
    using empty_payload_text [of ci]
    by (auto simp: format_salary_def salary_parts_def salary_range_text equity_part_text
                   exn_bind_def salary_text_def)
  then show ?thesis by (simp add: format_salary_def)
qed

theorem format_salary_text_witness:
  "format_salary
     (JObj [(''minSalary'', JInt 50000), (''maxSalary'', JInt 70000), (''currency'', JStr ''GBP''),
            (''equity'', JObj [(''min'', JInt 1), (''max'', JInt 2)])])
     = ''GBP 50,000 - 70,000 | Equity: 1-2%''
   \<and> format_salary
       (JObj [(''minSalary'', JInt 1200000), (''maxSalary'', JInt 1500000), (''equity'', JNull)])
     = ''USD 1,200,000 - 1,500,000''
   \<and> format_salary
       (JObj [(''minSalary'', JInt 50000), (''maxSalary'', JInt 70000), (''currency'', JNull)])
     = ''None 50,000 - 70,000''
   \<and> format_salary
       (JObj [(''minSalary'', JNull), (''currency'', JStr ''USD''),
              (''equity'', JObj [(''min'', JNull), (''max'', JNull)])])
     = ''Equity: None-None%''"
  using format_salary_text
          [of "\<lparr> min_salary = Given 50000, max_salary = Given 70000,
                  currency = Given ''GBP'', equity = Given (Some 1, Some 2) \<rparr>"]
        format_salary_text
          [of "\<lparr> min_salary = Given 1200000, max_salary = Given 1500000,
                  currency = Missing, equity = Null \<rparr>"]
        format_salary_text
          [of "\<lparr> min_salary = Given 50000, max_salary = Given 70000,
                  currency = Null, equity = Missing \<rparr>"]
        format_salary_text
          [of "\<lparr> min_salary = Null, max_salary = Missing,
                  currency = Given ''USD'', equity = Given (None, None) \<rparr>"]
  by (simp add: compensation_json_def compensation_items_def entry_def equity_json_def
                percentage_def salary_text_def range_text_def equity_text_def
                currency_text_def percentage_text_def number_text)

text \<open>Both bounds are present, the lower one is 0: the text has no range part, where
  the claim as stated asks for "USD 0 - 50,000".\<close>

theorem format_salary_zero_counterexample:
  "format_salary
     (JObj [(''minSalary'', JInt 0), (''maxSalary'', JInt 50000), (''currency'', JStr ''USD'')])
     = ''Not specified''
   \<and> ''USD'' @ '' '' @ int_comma 0 @ '' - '' @ int_comma 50000 = ''USD 0 - 50,000''"
  by (simp add: format_salary_def salary_parts_def salary_range_def equity_part_def
                exn_bind_def number_text)

section \<open>Persistence: what the insert count counts\<close>

text \<open>A server on which no statement raises, jobs that differ in title and url, and a
  row as the table holds it before the detail phase.\<close>

definition quiet_db :: db_world where
  "quiet_db = \<lparr> insert_fault = (\<lambda>job. None), now = 7 \<rparr>"

definition job_at :: "string \<Rightarrow> string \<Rightarrow> job" where
  "job_at title url =
     \<lparr> job_title = JStr title, company_name = JStr ''Acme'', location = JStr ''Remote'',
       salary_info = ''Not specified'', job_url = url, source_site = ''Wellfound'' \<rparr>"

definition stored_row :: "int \<Rightarrow> nat \<Rightarrow> job \<Rightarrow> row" where
  "stored_row i t j = \<lparr> row_id = i, row_job = j, row_description = None, scraped_at = t \<rparr>"

definition three_jobs :: "job list" where
  "three_jobs =
     [job_at ''Data Analyst'' ''https://jobs.test/1'',
      job_at ''Python Developer'' ''https://jobs.test/2'',
      job_at ''Data Scientist'' ''https://jobs.test/3'']"

definition one_stored :: store where
  "one_stored =
     \<lparr> rows = [stored_row 1 3 (job_at ''Data Analyst'' ''https://jobs.test/1'')], id_seq = 1 \<rparr>"

text \<open>When no statement raises, the counter ends at the size of the batch, whatever
  the table holds.\<close>

lemma insert_loop_counts:
  "(\<And>job. insert_fault w job = None) \<Longrightarrow>
     \<exists>pending' seq'. insert_loop w committed jobs (pending, seq, n)
                        = Inr (pending', seq', n + length jobs)"
proof (induction jobs arbitrary: pending seq n)
  case Nil
  then show ?case by simp
next
  case (Cons job jobs)
  show ?case
  proof (cases "url_stored (committed @ pending) (job_url job)")
    case True
    with Cons.IH [of pending "seq + 1" "n + 1"] Cons.prems show ?thesis
      by (simp add: Cons.prems)
  next
    case False
    with Cons.IH [of "pending @ [\<lparr> row_id = seq + 1, row_job = job,
                                     row_description = None, scraped_at = now w \<rparr>]"
                     "seq + 1" "n + 1"] Cons.prems
    show ?thesis by (simp add: Cons.prems)
  qed
qed

lemma insert_jobs_counts_batch:
  assumes "\<And>job. insert_fault w job = None"
  shows "\<exists>db'. insert_jobs_to_database w (Some db) jobs = Inr (length jobs, db')"
proof -
  obtain pending' seq' where
    "insert_loop w (rows db) jobs ([], id_seq db, 0) = Inr (pending', seq', 0 + length jobs)"
    using insert_loop_counts [OF assms, of "rows db" jobs "[]" "id_seq db" 0] by blast
  then show ?thesis
    by (simp add: insert_jobs_to_database_def exn_bind_def)
qed

text \<open>
  Claim C1, at a table that holds the url of the first of three jobs. The statement
  for the stored url raises nothing and inserts nothing, and is counted all the same:
  the count is 3, the size of the batch, where 2 rows were inserted. Inserting the
  same batch again inserts no row and counts 3 again. The table is as the claim says:
  one row for each url.
\<close>

theorem insert_jobs_counts_statements:
  "insert_jobs_to_database quiet_db (Some one_stored) three_jobs =
     Inr (3, Some \<lparr> rows = [stored_row 1 3 (job_at ''Data Analyst'' ''https://jobs.test/1''),
                            stored_row 3 7 (job_at ''Python Developer'' ''https://jobs.test/2''),
                            stored_row 4 7 (job_at ''Data Scientist'' ''https://jobs.test/3'')],
                    id_seq = 4 \<rparr>)
   \<and> insert_jobs_to_database quiet_db
         (Some \<lparr> rows = [stored_row 1 3 (job_at ''Data Analyst'' ''https://jobs.test/1''),
                         stored_row 3 7 (job_at ''Python Developer'' ''https://jobs.test/2''),
                         stored_row 4 7 (job_at ''Data Scientist'' ''https://jobs.test/3'')],
                 id_seq = 4 \<rparr>)
         three_jobs =
     Inr (3, Some \<lparr> rows = [stored_row 1 3 (job_at ''Data Analyst'' ''https://jobs.test/1''),
                            stored_row 3 7 (job_at ''Python Developer'' ''https://jobs.test/2''),
                            stored_row 4 7 (job_at ''Data Scientist'' ''https://jobs.test/3'')],
                    id_seq = 7 \<rparr>)"
  by (simp add: insert_jobs_to_database_def exn_bind_def quiet_db_def url_stored_def
                job_at_def stored_row_def three_jobs_def one_stored_def)

section \<open>Fallback chain: failures of a source\<close>

text \<open>A request has failed when it raised, or when the response carries a status that
  \<open>raise_for_status\<close> raises for. The blocked status 403 is one of these.\<close>

definition request_failed :: "'a http \<Rightarrow> bool" where
  "request_failed r =
     (case r of RequestFailed \<Rightarrow> True
      | Response status content \<Rightarrow> 400 \<le> status \<and> status < 600)"

text \<open>A list item with a link that has all of href, title and company.\<close>

definition listing :: "string \<Rightarrow> string \<Rightarrow> string \<Rightarrow> job_li" where
  "listing h title company =
     Some \<lparr> href = Some h, title_span = Some title, company_span = Some company \<rparr>"

definition world_of :: "(string list \<Rightarrow> body http) \<Rightarrow> job_li list http \<Rightarrow> world" where
  "world_of post get = \<lparr> wellfound_post = post, wwr_get = get, database = quiet_db \<rparr>"

lemma try_wellfound_failed:
  "request_failed (post search_terms) \<Longrightarrow> try_wellfound_scraping post search_terms = Inr []"
  by (auto simp: request_failed_def try_wellfound_scraping_def try_wellfound_scraping_body_def
                 raise_for_status_def exn_bind_def split: http.splits)

lemma acquire_failed:
  "request_failed (wellfound_post w search_terms)
     \<Longrightarrow> acquire w search_terms = Inr (scrape_weworkremotely (wwr_get w))"
  by (simp add: acquire_def try_wellfound_failed exn_bind_def)

lemma map_filter_empty: "(\<forall>x\<in>set xs. f x = None) \<Longrightarrow> List.map_filter f xs = []"
  by (induction xs) (simp_all add: List.map_filter_simps)

lemma wwr_no_match:
  assumes "get = Response status job_listings"
      and "\<not> (400 \<le> status \<and> status < 600)"
      and "\<forall>job_li\<in>set (take 10 job_listings). wwr_job job_li = None"
  shows "scrape_weworkremotely get = sample_jobs"
  using assms map_filter_empty [of "take 10 job_listings" wwr_job]
  by (auto simp: scrape_weworkremotely_def scrape_weworkremotely_body_def
                 raise_for_status_def exn_bind_def Let_def)

lemma wwr_failed: "request_failed get \<Longrightarrow> scrape_weworkremotely get = []"
  by (auto simp: request_failed_def scrape_weworkremotely_def scrape_weworkremotely_body_def
                 raise_for_status_def exn_bind_def split: http.splits)

lemma wwr_job_tag: "wwr_job job_li = Some job \<Longrightarrow> source_site job = ''WeWorkRemotely''"
  by (auto simp: wwr_job_def split: option.splits if_splits)

lemma sample_jobs_tags:
  "length sample_jobs = 5
   \<and> (\<forall>job\<in>set sample_jobs. source_site job = ''WeWorkRemotely'')"
  by (simp add: sample_jobs_def)

lemma lower_filter_terms:
  "py_lower ''data'' = ''data''" "py_lower ''analyst'' = ''analyst''"
  "py_lower ''python'' = ''python''" "py_lower ''scientist'' = ''scientist''"
  by (simp_all add: py_lower_def lower_char_def upper_chars_def lower_chars_def)

lemma lower_titles:
  "py_lower ''Senior Data Engineer'' = ''senior data engineer''"
  "py_lower ''Designer'' = ''designer''"
  by (simp_all add: py_lower_def lower_char_def upper_chars_def lower_chars_def)

lemma wwr_job_eval:
  "wwr_job (listing ''/remote-jobs/acme-data-engineer'' ''Senior Data Engineer'' ''Acme'') =
     Some \<lparr> job_title = JStr ''Senior Data Engineer'', company_name = JStr ''Acme'',
            location = JStr ''Remote'', salary_info = ''Not specified'',
            job_url = ''https://weworkremotely.com/remote-jobs/acme-data-engineer'',
            source_site = ''WeWorkRemotely'' \<rparr>"
  "wwr_job (listing ''/remote-jobs/acme-designer'' ''Designer'' ''Acme'') = None"
  "wwr_job None = None"
  by (simp_all add: wwr_job_def listing_def filter_terms_def lower_filter_terms lower_titles)

lemma wwr_eval:
  "scrape_weworkremotely
     (Response 200 [listing ''/remote-jobs/acme-data-engineer'' ''Senior Data Engineer'' ''Acme'',
                    listing ''/remote-jobs/acme-designer'' ''Designer'' ''Acme'', None]) =
     [\<lparr> job_title = JStr ''Senior Data Engineer'', company_name = JStr ''Acme'',
        location = JStr ''Remote'', salary_info = ''Not specified'',
        job_url = ''https://weworkremotely.com/remote-jobs/acme-data-engineer'',
        source_site = ''WeWorkRemotely'' \<rparr>]"
  by (simp add: scrape_weworkremotely_def scrape_weworkremotely_body_def raise_for_status_def
                exn_bind_def List.map_filter_simps wwr_job_eval)

lemma wwr_eval_none:
  "scrape_weworkremotely
     (Response 200 [listing ''/remote-jobs/acme-designer'' ''Designer'' ''Acme'', None])
     = sample_jobs"
  "scrape_weworkremotely (Response 200 []) = sample_jobs"
  by (simp_all add: scrape_weworkremotely_def scrape_weworkremotely_body_def
                    raise_for_status_def exn_bind_def List.map_filter_simps wwr_job_eval)

section \<open>Fallback chain: the blocked primary source\<close>

text \<open>
  Claim C4. When the primary source answers the query with status 403, whatever the
  search terms and whatever the content of the response, \<open>try_wellfound_scraping\<close>
  returns the empty list without raising (the content is never decoded), and the chain
  returns what \<open>scrape_weworkremotely\<close> gives on the same environment.
\<close>

theorem acquire_blocked:
  assumes "wellfound_post w search_terms = Response 403 content"
  shows "try_wellfound_scraping (wellfound_post w) search_terms = Inr []
         \<and> acquire w search_terms = Inr (scrape_weworkremotely (wwr_get w))"
  using assms
  by (simp add: acquire_def try_wellfound_scraping_def try_wellfound_scraping_body_def
                exn_bind_def)

theorem acquire_blocked_witness:
  "acquire
     (world_of (\<lambda>search_terms. Response 403 Undecodable)
        (Response 200
           [listing ''/remote-jobs/acme-data-engineer'' ''Senior Data Engineer'' ''Acme'',
            listing ''/remote-jobs/acme-designer'' ''Designer'' ''Acme'', None]))
     [''Data Analyst''] =
   Inr [\<lparr> job_title = JStr ''Senior Data Engineer'', company_name = JStr ''Acme'',
            location = JStr ''Remote'', salary_info = ''Not specified'',
            job_url = ''https://weworkremotely.com/remote-jobs/acme-data-engineer'',
            source_site = ''WeWorkRemotely'' \<rparr>]"
  using acquire_blocked
          [of "world_of (\<lambda>search_terms. Response 403 Undecodable)
                 (Response 200
                    [listing ''/remote-jobs/acme-data-engineer'' ''Senior Data Engineer'' ''Acme'',
                     listing ''/remote-jobs/acme-designer'' ''Designer'' ''Acme'', None])"
              "[''Data Analyst'']" Undecodable]
  by (simp add: world_of_def wwr_eval)

section \<open>Fallback chain: the sample catalog\<close>

text \<open>
  Claim C3, as the code has it. When the request to the primary source fails and the
  secondary source answers with a page on which none of the first ten list items is
  accepted, the chain returns the sample catalog. The catalog has 5 records, and each
  of them carries the tag \<open>WeWorkRemotely\<close> as its \<open>source_site\<close>: the tag that every
  record read from the secondary source's page carries as well.
\<close>

theorem acquire_sample_catalog:
  assumes "request_failed (wellfound_post w search_terms)"
      and "wwr_get w = Response status job_listings"
      and "\<not> (400 \<le> status \<and> status < 600)"
      and "\<forall>job_li\<in>set (take 10 job_listings). wwr_job job_li = None"
  shows "acquire w search_terms = Inr sample_jobs
         \<and> length sample_jobs = 5
         \<and> (\<forall>job\<in>set sample_jobs. source_site job = ''WeWorkRemotely'')
         \<and> (\<forall>job_li job. wwr_job job_li = Some job \<longrightarrow> source_site job = ''WeWorkRemotely'')"
proof -
  have "scrape_weworkremotely (wwr_get w) = sample_jobs"
    using assms(2-4) by (rule wwr_no_match)
  with assms(1) have "acquire w search_terms = Inr sample_jobs"
    by (simp add: acquire_failed)
  with sample_jobs_tags wwr_job_tag show ?thesis
    by blast
qed

theorem acquire_sample_catalog_witness:
  "acquire
     (world_of (\<lambda>search_terms. RequestFailed)
        (Response 200 [listing ''/remote-jobs/acme-designer'' ''Designer'' ''Acme'', None]))
     [''Data Analyst''] = Inr sample_jobs
   \<and> map source_site sample_jobs =
       [''WeWorkRemotely'', ''WeWorkRemotely'', ''WeWorkRemotely'', ''WeWorkRemotely'',
        ''WeWorkRemotely'']"
  using acquire_sample_catalog
          [of "world_of (\<lambda>search_terms. RequestFailed)
                 (Response 200 [listing ''/remote-jobs/acme-designer'' ''Designer'' ''Acme'', None])"
              "[''Data Analyst'']" 200
              "[listing ''/remote-jobs/acme-designer'' ''Designer'' ''Acme'', None]"]
  by (simp add: world_of_def request_failed_def wwr_job_eval sample_jobs_def)

text \<open>The primary source is down in both runs. On an empty page the chain gives the
  catalog; on a page with one accepted item it gives that item's record. The catalog's
  records and the record from the page have the same \<open>source_site\<close>, where the claim
  as stated gives the catalog a tag of its own.\<close>

theorem sample_catalog_tag_counterexample:
  "map_sum id (map source_site)
     (acquire (world_of (\<lambda>search_terms. RequestFailed) (Response 200 [])) [''Data Analyst''])
     = Inr [''WeWorkRemotely'', ''WeWorkRemotely'', ''WeWorkRemotely'', ''WeWorkRemotely'',
            ''WeWorkRemotely'']
   \<and> map_sum id (map source_site)
       (acquire
          (world_of (\<lambda>search_terms. RequestFailed)
             (Response 200
                [listing ''/remote-jobs/acme-data-engineer'' ''Senior Data Engineer'' ''Acme'']))
          [''Data Analyst''])
     = Inr [''WeWorkRemotely'']"
  by (simp add: acquire_def try_wellfound_scraping_def try_wellfound_scraping_body_def
                exn_bind_def world_of_def scrape_weworkremotely_def
                scrape_weworkremotely_body_def raise_for_status_def List.map_filter_simps
                wwr_job_eval sample_jobs_def)

section \<open>Fallback chain: what a failure leaves\<close>

text \<open>
  Claim C2, as the code has it. The chain runs inside the \<open>try\<close> of
  \<open>scrape_list_pages\<close>, which returns a list for every input and raises nothing. A
  failed request to the primary source is caught in \<open>try_wellfound_scraping\<close> and
  counts as an empty result, after which the chain gives what the secondary source
  gives. A failed request to the secondary source is caught in
  \<open>scrape_weworkremotely\<close> and gives the empty list: the sample catalog is produced
  when the secondary source answers and none of the first ten list items is accepted,
  and not when its request fails.
\<close>

theorem fallback_chain_failures:
  "(\<exists>r. scrape_list_pages w db_connection search_terms = Inr r)
   \<and> (request_failed (wellfound_post w terms)
        \<longrightarrow> try_wellfound_scraping (wellfound_post w) terms = Inr []
            \<and> acquire w terms = Inr (scrape_weworkremotely (wwr_get w)))
   \<and> (request_failed (wwr_get w) \<longrightarrow> scrape_weworkremotely (wwr_get w) = [])
   \<and> (wwr_get w = Response status job_listings \<and> \<not> (400 \<le> status \<and> status < 600)
        \<and> (\<forall>job_li\<in>set (take 10 job_listings). wwr_job job_li = None)
        \<longrightarrow> scrape_weworkremotely (wwr_get w) = sample_jobs)"
proof -
  have "\<exists>r. scrape_list_pages w db_connection search_terms = Inr r"
    by (simp add: scrape_list_pages_def Let_def split: sum.splits)
  moreover have "try_wellfound_scraping (wellfound_post w) terms = Inr []
                 \<and> acquire w terms = Inr (scrape_weworkremotely (wwr_get w))"
    if "request_failed (wellfound_post w terms)"
    using that by (simp add: try_wellfound_failed acquire_failed)
  moreover have "scrape_weworkremotely (wwr_get w) = []" if "request_failed (wwr_get w)"
    using that by (rule wwr_failed)
  moreover have "scrape_weworkremotely (wwr_get w) = sample_jobs"
    if "wwr_get w = Response status job_listings \<and> \<not> (400 \<le> status \<and> status < 600)
        \<and> (\<forall>job_li\<in>set (take 10 job_listings). wwr_job job_li = None)"
    using that wwr_no_match [of "wwr_get w" status job_listings] by blast
  ultimately show ?thesis by blast
qed

theorem fallback_chain_failures_witness:
  "acquire
     (world_of (\<lambda>search_terms. RequestFailed)
        (Response 200 [listing ''/remote-jobs/acme-designer'' ''Designer'' ''Acme'', None]))
     [''Data Analyst''] = Inr sample_jobs
   \<and> acquire (world_of (\<lambda>search_terms. Response 503 Undecodable) (Response 404 []))
       [''Data Analyst''] = Inr []"
  using fallback_chain_failures
          [of "world_of (\<lambda>search_terms. RequestFailed)
                 (Response 200 [listing ''/remote-jobs/acme-designer'' ''Designer'' ''Acme'', None])"
              None None "[''Data Analyst'']" 200
              "[listing ''/remote-jobs/acme-designer'' ''Designer'' ''Acme'', None]"]
        fallback_chain_failures
          [of "world_of (\<lambda>search_terms. Response 503 Undecodable) (Response 404 [])"
              None None "[''Data Analyst'']" 404 "[]"]
  by (simp add: world_of_def request_failed_def wwr_job_eval)

text \<open>
  The primary source is blocked and the request to the secondary source fails: the
  result is empty, and no catalog is produced. And a response of the primary source
  that cannot be decoded leaves \<open>try_wellfound_scraping\<close> by an exception that its
  handler does not catch: the handler of \<open>scrape_list_pages\<close> answers with the empty
  list, and the secondary source, which has a job to give, is not asked.
\<close>

theorem fallback_chain_empty_counterexample:
  "scrape_list_pages (world_of (\<lambda>search_terms. Response 403 Undecodable) RequestFailed)
     (Some one_stored) (Some [''Data Analyst'']) = Inr ([], Some one_stored)
   \<and> scrape_list_pages
       (world_of (\<lambda>search_terms. Response 200 Undecodable)
          (Response 200
             [listing ''/remote-jobs/acme-data-engineer'' ''Senior Data Engineer'' ''Acme'']))
       (Some one_stored) (Some [''Data Analyst'']) = Inr ([], Some one_stored)
   \<and> length (scrape_weworkremotely
               (Response 200
                  [listing ''/remote-jobs/acme-data-engineer'' ''Senior Data Engineer'' ''Acme'']))
     = 1"
  by (simp add: scrape_list_pages_def scrape_list_pages_body_def acquire_def
                try_wellfound_scraping_def try_wellfound_scraping_body_def exn_bind_def
                world_of_def scrape_weworkremotely_def scrape_weworkremotely_body_def
                raise_for_status_def List.map_filter_simps wwr_job_eval)

section \<open>Detail enrichment: a text of exactly 100 characters\<close>

text \<open>A page on which only the last selector, \<open>.content\<close>, finds an element. The
  element's text has 100 characters; the text of the page's body holds it between a
  header and a footer.\<close>

definition hundred_text :: string where
  "hundred_text =
     ''About the role. You will build data pipelines and dashboards for our retail analytics team in Leeds.''"

definition page_with :: "string \<Rightarrow> page" where
  "page_with text =
     \<lparr> element_text = (\<lambda>selector. if selector = ''.content'' then Some text else None),
       body_text = Some (''Acme Analytics. Home. Careers. '' @ text @ '' Apply now. Privacy.'') \<rparr>"

text \<open>
  Claim C6, at that page. No selector gives a text of more than 100 characters, so
  the claim asks for the text of the body. The loop does not break at 100 characters,
  and the test before the fallback asks for fewer than 100: the description is the
  text of \<open>.content\<close>. With one character less, the description is the text of the
  body.
\<close>

theorem scrape_url_hundred_characters:
  "length hundred_text = 100
   \<and> probe_selectors (page_with hundred_text) description_selectors None = Some hundred_text
   \<and> scrape_url_with_selenium (\<lambda>url. Inr (page_with hundred_text)) ''https://jobs.test/1''
       = hundred_text
   \<and> body_fallback (page_with hundred_text)
       = ''Acme Analytics. Home. Careers. '' @ hundred_text @ '' Apply now. Privacy.''
   \<and> scrape_url_with_selenium (\<lambda>url. Inr (page_with (butlast hundred_text)))
         ''https://jobs.test/1''
       = ''Acme Analytics. Home. Careers. '' @ butlast hundred_text @ '' Apply now. Privacy.''"
  by (simp add: scrape_url_with_selenium_def description_selectors_def page_with_def
                body_fallback_def hundred_text_def)

section \<open>Detail enrichment: a fetch that fails\<close>









end
